theory Spec2Isabelle
  imports Complex_Main
begin

section \<open>Host-language values\<close>

text \<open>
  A JavaScript number that the code computes from dates is either an integer or \<open>NaN\<close>
  (the time value of an invalid \<open>Date\<close>). Every comparison with \<open>NaN\<close> is false.
\<close>

datatype jsnum = Num int | NaN

fun num_le :: "jsnum \<Rightarrow> int \<Rightarrow> bool" where
  "num_le (Num a) b = (a \<le> b)"
| "num_le NaN b = False"

fun num_lt :: "jsnum \<Rightarrow> int \<Rightarrow> bool" where
  "num_lt (Num a) b = (a < b)"
| "num_lt NaN b = False"

fun num_ge :: "jsnum \<Rightarrow> int \<Rightarrow> bool" where
  "num_ge (Num a) b = (a \<ge> b)"
| "num_ge NaN b = False"

text \<open>
  A \<open>Date\<close> object is represented by its time value in milliseconds since the epoch;
  \<open>InvalidDate\<close> is the object \<open>new Date(s)\<close> builds from a string that does not parse.
  A date string of the source (\<open>due_date\<close>, \<open>goLiveDate\<close>) is represented by the
  \<open>Date\<close> that \<open>new Date(s)\<close> builds from it; \<open>None\<close> stands for \<open>undefined\<close> and for
  the empty string, which are both falsy.
\<close>

datatype jsdate = Date int | InvalidDate

definition msPerDay :: int where
  "msPerDay = 1000 * 60 * 60 * 24"

text \<open>\<open>String.prototype.includes\<close>: the second string occurs as a contiguous part.\<close>

fun starts_with :: "string \<Rightarrow> string \<Rightarrow> bool" where
  "starts_with s [] = True"
| "starts_with [] (p # ps) = False"
| "starts_with (c # cs) (p # ps) = (c = p \<and> starts_with cs ps)"

fun str_includes :: "string \<Rightarrow> string \<Rightarrow> bool" where
  "str_includes [] sub = (sub = [])"
| "str_includes (c # cs) sub = (starts_with (c # cs) sub \<or> str_includes cs sub)"

text \<open>\<open>Array.prototype.slice(0, n)\<close>: a negative end counts from the end of the array.\<close>

definition slice0 :: "'a list \<Rightarrow> int \<Rightarrow> 'a list" where
  "slice0 xs n = (if n < 0 then take (nat (int (length xs) + n)) xs else take (nat n) xs)"

text \<open>
  Reading a property of an object literal by a computed key: the literal's own property,
  a property inherited from \<open>Object.prototype\<close> (a function, or the prototype object
  itself for \<open>__proto__\<close>: truthy in both cases), or \<open>undefined\<close>.
\<close>

datatype 'a property = Own 'a | Inherited | Undefined

definition object_prototype_keys :: "string list" where
  "object_prototype_keys =
    [''constructor'', ''__defineGetter__'', ''__defineSetter__'', ''hasOwnProperty'',
     ''__lookupGetter__'', ''__lookupSetter__'', ''isPrototypeOf'', ''propertyIsEnumerable'',
     ''toString'', ''valueOf'', ''__proto__'', ''toLocaleString'']"

definition get_property :: "(string \<times> 'a) list \<Rightarrow> string \<Rightarrow> 'a property" where
  "get_property obj k =
    (case map_of obj k of
       Some v \<Rightarrow> Own v
     | None \<Rightarrow> if k \<in> set object_prototype_keys then Inherited else Undefined)"

datatype js_error = TypeError

section \<open>Data model (types.ts)\<close>

datatype task_status = Pending | In_progress | Completed | Blocked

text \<open>The scale \<open>'low' | 'medium' | 'high' | 'critical'\<close> of priorities and urgencies.\<close>

datatype level = Low | Medium | High | Critical

record OnboardingTask =
  task_id :: string
  task_onboarding_id :: string
  task_type :: string
  title :: string
  description :: "string option"
  owner_role :: string
  assigned_to :: "string option"
  status :: task_status
  priority :: level
  due_date :: "jsdate option"
  completed_at :: "string option"
  is_blocker :: bool
  blocker_reason :: "string option"
  task_created_at :: string

record Stakeholder =
  stakeholder_id :: string
  stakeholder_onboarding_id :: string
  role :: string
  name :: string
  email :: string
  phone :: "string option"
  responsibilities :: "string list"
  stakeholder_created_at :: string

section \<open>Escalation logic (escalation-logic.ts)\<close>

record EscalationRule =
  taskType :: string
  overdueThresholdDays :: int
  escalationChain :: "string list"
  urgencyLevel :: level

text \<open>The four texts of \<open>escalationReason\<close>, with the numbers the templates interpolate.\<close>

datatype escalation_reason =
    No_due_date_set
  | Task_not_overdue
  | Overdue_below_threshold jsnum int
  | Overdue_by jsnum int

record EscalationResult =
  shouldEscalate :: bool
  escalateTo :: "string list"
  urgencyLevel :: level
  escalationReason :: escalation_reason
  daysOverdue :: jsnum

definition ESCALATION_RULES :: "EscalationRule list" where
  "ESCALATION_RULES =
    [\<lparr>taskType = ''kickoff_meeting'', overdueThresholdDays = 1,
      escalationChain = [''project_manager'', ''owner''], urgencyLevel = High\<rparr>,
     \<lparr>taskType = ''sis_setup'', overdueThresholdDays = 2,
      escalationChain = [''technical_lead'', ''project_manager'', ''owner''], urgencyLevel = Critical\<rparr>,
     \<lparr>taskType = ''crm_setup'', overdueThresholdDays = 3,
      escalationChain = [''technical_lead'', ''project_manager''], urgencyLevel = High\<rparr>,
     \<lparr>taskType = ''sftp_setup'', overdueThresholdDays = 3,
      escalationChain = [''technical_lead'', ''project_manager''], urgencyLevel = High\<rparr>,
     \<lparr>taskType = ''api_setup'', overdueThresholdDays = 3,
      escalationChain = [''technical_lead'', ''project_manager''], urgencyLevel = High\<rparr>,
     \<lparr>taskType = ''security_review'', overdueThresholdDays = 2,
      escalationChain = [''technical_lead'', ''project_manager'', ''owner''], urgencyLevel = Critical\<rparr>,
     \<lparr>taskType = ''compliance_check'', overdueThresholdDays = 2,
      escalationChain = [''technical_lead'', ''project_manager'', ''owner''], urgencyLevel = Critical\<rparr>,
     \<lparr>taskType = ''go_live_preparation'', overdueThresholdDays = 1,
      escalationChain = [''project_manager'', ''owner''], urgencyLevel = Critical\<rparr>]"

definition DEFAULT_ESCALATION_RULE :: EscalationRule where
  "DEFAULT_ESCALATION_RULE =
    \<lparr>taskType = ''default'', overdueThresholdDays = 3,
     escalationChain = [''project_manager'', ''owner''], urgencyLevel = Medium\<rparr>"

text \<open>\<open>ESCALATION_RULES.find(r => r.taskType === task.task_type) || DEFAULT_ESCALATION_RULE\<close>\<close>

definition applicable_rule :: "string \<Rightarrow> EscalationRule" where
  "applicable_rule tt =
    (case find (\<lambda>r. taskType r = tt) ESCALATION_RULES of
       Some r \<Rightarrow> r
     | None \<Rightarrow> DEFAULT_ESCALATION_RULE)"

text \<open>
  The local variable \<open>escalationLevel\<close> of \<open>shouldEscalateTask\<close>, as a function of the
  rule and of the days overdue.
\<close>

definition escalationLevel :: "EscalationRule \<Rightarrow> jsnum \<Rightarrow> int" where
  "escalationLevel rule days =
    (if num_ge days (overdueThresholdDays rule * 3)
       then min (int (length (escalationChain rule)) - 1) 2
     else if num_ge days (overdueThresholdDays rule * 2)
       then min (int (length (escalationChain rule)) - 1) 1
     else 0)"

text \<open>The part of \<open>shouldEscalateTask\<close> that follows the lookup of the rule.\<close>

definition escalate_by_rule :: "EscalationRule \<Rightarrow> jsnum \<Rightarrow> EscalationResult" where
  "escalate_by_rule rule days =
    (if num_lt days (overdueThresholdDays rule)
       then \<lparr>shouldEscalate = False, escalateTo = [], urgencyLevel = Low,
             escalationReason = Overdue_below_threshold days (overdueThresholdDays rule),
             daysOverdue = days\<rparr>
     else \<lparr>shouldEscalate = True,
           escalateTo = slice0 (escalationChain rule) (escalationLevel rule days + 1),
           urgencyLevel = EscalationRule.urgencyLevel rule,
           escalationReason = Overdue_by days (overdueThresholdDays rule),
           daysOverdue = days\<rparr>)"

text \<open>
  \<open>Math.floor((now.getTime() - dueDate.getTime()) / (1000 * 60 * 60 * 24))\<close> after both
  dates were normalised by \<open>setHours(0, 0, 0, 0)\<close>. The normalisation to the start of the
  local day depends on the host's time zone; it is the parameter \<open>sod\<close>.
\<close>

definition days_overdue :: "(int \<Rightarrow> int) \<Rightarrow> int \<Rightarrow> jsdate \<Rightarrow> jsnum" where
  "days_overdue sod now due =
    (case due of
       InvalidDate \<Rightarrow> NaN
     | Date d \<Rightarrow> Num ((sod now - sod d) div msPerDay))"

text \<open>\<open>shouldEscalateTask\<close>; \<open>now\<close> is the reading of the clock by \<open>new Date()\<close>.\<close>

definition shouldEscalateTask :: "(int \<Rightarrow> int) \<Rightarrow> int \<Rightarrow> OnboardingTask \<Rightarrow> EscalationResult" where
  "shouldEscalateTask sod now task =
    (case due_date task of
       None \<Rightarrow>
         \<lparr>shouldEscalate = False, escalateTo = [], urgencyLevel = Low,
          escalationReason = No_due_date_set, daysOverdue = Num 0\<rparr>
     | Some dueDate \<Rightarrow>
         let days = days_overdue sod now dueDate in
         if num_le days 0
           then \<lparr>shouldEscalate = False, escalateTo = [], urgencyLevel = Low,
                 escalationReason = Task_not_overdue, daysOverdue = Num 0\<rparr>
         else escalate_by_rule (applicable_rule (task_type task)) days)"

record BlockerEscalation =
  escalateTo :: "string list"
  urgencyLevel :: level

definition escalationMap :: "(string \<times> string list) list" where
  "escalationMap =
    [(''it_contact'', [''technical_lead'', ''project_manager'']),
     (''technical_lead'', [''project_manager'', ''owner'']),
     (''project_manager'', [''owner'']),
     (''owner'', [''project_manager''])]"

text \<open>The loop that resolves the roles to the e-mail of the first stakeholder of each.\<close>

fun escalationRecipients :: "string list \<Rightarrow> Stakeholder list \<Rightarrow> string list" where
  "escalationRecipients [] stakeholders = []"
| "escalationRecipients (r # roles) stakeholders =
    (case find (\<lambda>s. role s = r) stakeholders of
       Some stakeholder \<Rightarrow> email stakeholder # escalationRecipients roles stakeholders
     | None \<Rightarrow> escalationRecipients roles stakeholders)"

definition blockerUrgency :: "OnboardingTask \<Rightarrow> level" where
  "blockerUrgency task =
    (if priority task = Critical \<or> str_includes (task_type task) ''security''
         \<or> str_includes (task_type task) ''sis''
       then Critical
     else if priority task = High \<or> str_includes (task_type task) ''setup''
         \<or> str_includes (task_type task) ''go_live''
       then High
     else if priority task = Low then Low
     else Medium)"

text \<open>
  \<open>getBlockerEscalationRecipients\<close>. A value inherited from \<open>Object.prototype\<close> is truthy
  and not iterable, so the \<open>for ... of\<close> loop over it throws.
\<close>

definition getBlockerEscalationRecipients ::
  "OnboardingTask \<Rightarrow> Stakeholder list \<Rightarrow> js_error + BlockerEscalation" where
  "getBlockerEscalationRecipients task stakeholders =
    (case get_property escalationMap (owner_role task) of
       Inherited \<Rightarrow> Inl TypeError
     | Own escalationRoles \<Rightarrow>
         Inr \<lparr>escalateTo = escalationRecipients escalationRoles stakeholders,
              urgencyLevel = blockerUrgency task\<rparr>
     | Undefined \<Rightarrow>
         Inr \<lparr>escalateTo = escalationRecipients [''project_manager''] stakeholders,
              urgencyLevel = blockerUrgency task\<rparr>)"

text \<open>
  \<open>findTasksNeedingEscalation\<close>. Every call of \<open>shouldEscalateTask\<close> reads the clock
  anew: \<open>clock k\<close> is the reading of the \<open>k\<close>-th call. Completed tasks are skipped
  without a call.
\<close>

fun findTasksNeedingEscalation ::
  "(int \<Rightarrow> int) \<Rightarrow> (nat \<Rightarrow> int) \<Rightarrow> OnboardingTask list \<Rightarrow> (OnboardingTask \<times> EscalationResult) list" where
  "findTasksNeedingEscalation sod clock [] = []"
| "findTasksNeedingEscalation sod clock (task # tasks) =
    (if status task = Completed then findTasksNeedingEscalation sod clock tasks
     else
       let escalationResult = shouldEscalateTask sod (clock 0) task;
           others = findTasksNeedingEscalation sod (\<lambda>k. clock (Suc k)) tasks
       in if shouldEscalate escalationResult then (task, escalationResult) # others
          else others)"

section \<open>Task assignment (task-assignment.ts)\<close>

record TaskAssignmentRule =
  taskType :: string
  preferredRoles :: "string list"
  fallbackRole :: string

record Assignment =
  ownerRole :: string
  assignedTo :: "string option"

definition TASK_ASSIGNMENT_RULES :: "TaskAssignmentRule list" where
  "TASK_ASSIGNMENT_RULES =
    [\<lparr>taskType = ''kickoff_meeting'', preferredRoles = [''project_manager'', ''owner''],
      fallbackRole = ''project_manager''\<rparr>,
     \<lparr>taskType = ''requirements_review'', preferredRoles = [''owner'', ''project_manager''],
      fallbackRole = ''owner''\<rparr>,
     \<lparr>taskType = ''timeline_planning'', preferredRoles = [''project_manager''],
      fallbackRole = ''project_manager''\<rparr>,
     \<lparr>taskType = ''security_review'', preferredRoles = [''technical_lead'', ''it_contact''],
      fallbackRole = ''technical_lead''\<rparr>,
     \<lparr>taskType = ''compliance_check'', preferredRoles = [''technical_lead'', ''owner''],
      fallbackRole = ''technical_lead''\<rparr>,
     \<lparr>taskType = ''go_live_preparation'', preferredRoles = [''project_manager'', ''technical_lead''],
      fallbackRole = ''project_manager''\<rparr>]"

definition INTEGRATION_TASK_RULES :: "(string \<times> TaskAssignmentRule) list" where
  "INTEGRATION_TASK_RULES =
    [(''sis_setup'', \<lparr>taskType = ''sis_setup'', preferredRoles = [''it_contact'', ''technical_lead''],
        fallbackRole = ''it_contact''\<rparr>),
     (''crm_setup'', \<lparr>taskType = ''crm_setup'', preferredRoles = [''it_contact'', ''technical_lead''],
        fallbackRole = ''it_contact''\<rparr>),
     (''sftp_setup'', \<lparr>taskType = ''sftp_setup'', preferredRoles = [''technical_lead'', ''it_contact''],
        fallbackRole = ''technical_lead''\<rparr>),
     (''api_setup'', \<lparr>taskType = ''api_setup'', preferredRoles = [''technical_lead''],
        fallbackRole = ''technical_lead''\<rparr>),
     (''sis_testing'', \<lparr>taskType = ''sis_testing'', preferredRoles = [''technical_lead'', ''it_contact''],
        fallbackRole = ''technical_lead''\<rparr>),
     (''crm_testing'', \<lparr>taskType = ''crm_testing'', preferredRoles = [''technical_lead'', ''it_contact''],
        fallbackRole = ''technical_lead''\<rparr>),
     (''sftp_testing'', \<lparr>taskType = ''sftp_testing'', preferredRoles = [''technical_lead''],
        fallbackRole = ''technical_lead''\<rparr>),
     (''api_testing'', \<lparr>taskType = ''api_testing'', preferredRoles = [''technical_lead''],
        fallbackRole = ''technical_lead''\<rparr>)]"

text \<open>\<open>stakeholders.find(s => s.role === r)?.email\<close>\<close>

definition email_of_role :: "string \<Rightarrow> Stakeholder list \<Rightarrow> string option" where
  "email_of_role r stakeholders = map_option email (find (\<lambda>s. role s = r) stakeholders)"

text \<open>The loop over \<open>rule.preferredRoles\<close>, which returns at the first role that has a stakeholder.\<close>

fun assign_preferred :: "string list \<Rightarrow> Stakeholder list \<Rightarrow> Assignment option" where
  "assign_preferred [] stakeholders = None"
| "assign_preferred (preferredRole # roles) stakeholders =
    (case find (\<lambda>s. role s = preferredRole) stakeholders of
       Some stakeholder \<Rightarrow> Some \<lparr>ownerRole = preferredRole, assignedTo = Some (email stakeholder)\<rparr>
     | None \<Rightarrow> assign_preferred roles stakeholders)"

text \<open>What \<open>assignTaskToStakeholder\<close> does once it holds a rule of the two tables.\<close>

definition assign_by_rule :: "TaskAssignmentRule \<Rightarrow> Stakeholder list \<Rightarrow> Assignment" where
  "assign_by_rule rule stakeholders =
    (case assign_preferred (preferredRoles rule) stakeholders of
       Some a \<Rightarrow> a
     | None \<Rightarrow> \<lparr>ownerRole = fallbackRole rule,
                 assignedTo = email_of_role (fallbackRole rule) stakeholders\<rparr>)"

text \<open>
  \<open>assignTaskToStakeholder\<close>. A value inherited from \<open>Object.prototype\<close> is truthy, so
  it becomes the rule; it has no \<open>preferredRoles\<close> and no \<open>fallbackRole\<close>, and the guard on
  \<open>preferredRoles\<close> answers with the role \<open>project_manager\<close>.
\<close>

definition assignTaskToStakeholder :: "string \<Rightarrow> Stakeholder list \<Rightarrow> Assignment" where
  "assignTaskToStakeholder tt stakeholders =
    (case get_property INTEGRATION_TASK_RULES tt of
       Own rule \<Rightarrow> assign_by_rule rule stakeholders
     | Inherited \<Rightarrow>
         \<lparr>ownerRole = ''project_manager'',
          assignedTo = email_of_role ''project_manager'' stakeholders\<rparr>
     | Undefined \<Rightarrow>
         (case find (\<lambda>r. TaskAssignmentRule.taskType r = tt) TASK_ASSIGNMENT_RULES of
            Some rule \<Rightarrow> assign_by_rule rule stakeholders
          | None \<Rightarrow>
              \<lparr>ownerRole = ''project_manager'',
               assignedTo = email_of_role ''project_manager'' stakeholders\<rparr>))"

text \<open>
  The rule for a task type, in the words of the specification: the entry of the two rule
  tables whose task type it is, if there is one.
\<close>

definition rule_for :: "string \<Rightarrow> TaskAssignmentRule option" where
  "rule_for tt =
    find (\<lambda>r. TaskAssignmentRule.taskType r = tt) (map snd INTEGRATION_TASK_RULES @ TASK_ASSIGNMENT_RULES)"

definition has_stakeholder :: "Stakeholder list \<Rightarrow> string \<Rightarrow> bool" where
  "has_stakeholder stakeholders r = (find (\<lambda>s. role s = r) stakeholders \<noteq> None)"

text \<open>
  \<open>calculateTaskDueDate\<close>: the number of days, then the date. \<open>Math.max(1, NaN)\<close> is
  \<open>NaN\<close>, and a \<open>Date\<close> built from \<open>NaN\<close> is invalid. Time values are taken to stay
  in the range a \<open>Date\<close> can hold.
\<close>

definition dueDays :: "int \<Rightarrow> string \<Rightarrow> jsdate option \<Rightarrow> string option \<Rightarrow> jsnum" where
  "dueDays now tt goLiveDate customerSize =
    (if str_includes tt ''kickoff'' then Num 1
     else if str_includes tt ''requirements'' then Num 2
     else if str_includes tt ''setup'' then (if str_includes tt ''sis'' then Num 3 else Num 5)
     else if str_includes tt ''testing'' then (if str_includes tt ''sis'' then Num 5 else Num 7)
     else if str_includes tt ''security'' \<or> str_includes tt ''compliance''
       then (if customerSize = Some ''enterprise'' then Num 5 else Num 7)
     else if str_includes tt ''go_live''
       then (case goLiveDate of
               Some (Date goLive) \<Rightarrow> Num (max 1 ((goLive - now) div msPerDay - 2))
             | Some InvalidDate \<Rightarrow> NaN
             | None \<Rightarrow> Num 14)
     else Num 7)"

definition calculateTaskDueDate :: "int \<Rightarrow> string \<Rightarrow> jsdate option \<Rightarrow> string option \<Rightarrow> jsdate" where
  "calculateTaskDueDate now tt goLiveDate customerSize =
    (case dueDays now tt goLiveDate customerSize of
       Num d \<Rightarrow> Date (now + d * 24 * 60 * 60 * 1000)
     | NaN \<Rightarrow> InvalidDate)"

text \<open>A date is later than a time; an invalid date is later than nothing.\<close>

fun later_than :: "jsdate \<Rightarrow> int \<Rightarrow> bool" where
  "later_than (Date t) now = (now < t)"
| "later_than InvalidDate now = False"

text \<open>
  A task type of the go-live family: the branch on \<open>go_live\<close> of
  \<open>calculateTaskDueDate\<close> is the one that handles it, no earlier branch does.
\<close>

definition go_live_family :: "string \<Rightarrow> bool" where
  "go_live_family tt =
    (str_includes tt ''go_live'' \<and> \<not> str_includes tt ''kickoff''
      \<and> \<not> str_includes tt ''requirements'' \<and> \<not> str_includes tt ''setup''
      \<and> \<not> str_includes tt ''testing'' \<and> \<not> str_includes tt ''security''
      \<and> \<not> str_includes tt ''compliance'')"

section \<open>Audit trail (audit-trail.ts)\<close>

text \<open>
  Metadata and configurations are JSON objects: maps from keys to JSON values. A JSON
  number is represented by an integer, which keeps what the code asks of it (whether it
  is zero).
\<close>

datatype json =
    JString string
  | JNumber int
  | JBool bool
  | JNull
  | JArray "json list"
  | JObject "(string \<times> json) list"

record CreateAuditRecord =
  entity_type :: string
  entity_id :: string
  event_type :: string
  metadata :: "(string \<rightharpoonup> json) option"

text \<open>The row given to \<open>insert\<close>, and the row the store gives back.\<close>

record AuditInsert =
  insert_entity_type :: string
  insert_entity_id :: string
  insert_event_type :: string
  insert_metadata :: "string \<rightharpoonup> json"

record EventsAudit =
  audit_id :: string
  audit_entity_type :: "string option"
  audit_entity_id :: "string option"
  audit_event_type :: "string option"
  audit_metadata :: "(string \<rightharpoonup> json) option"
  created_at :: string

record process_env =
  npm_package_version :: "string option"
  NODE_ENV :: "string option"

text \<open>\<open>v || d\<close> on an environment variable: unset and empty both give the default.\<close>

definition or_default :: "string option \<Rightarrow> string \<Rightarrow> string" where
  "or_default v d = (case v of None \<Rightarrow> d | Some s \<Rightarrow> if s = [] then d else s)"

text \<open>
  \<open>{...record.metadata, timestamp: ..., system_version: ..., environment: ...}\<close>;
  \<open>now\<close> is \<open>new Date().toISOString()\<close>.
\<close>

definition enhancedMetadata ::
  "process_env \<Rightarrow> string \<Rightarrow> (string \<rightharpoonup> json) option \<Rightarrow> (string \<rightharpoonup> json)" where
  "enhancedMetadata env now md =
    (case md of None \<Rightarrow> Map.empty | Some m \<Rightarrow> m)
      (''timestamp'' \<mapsto> JString now,
       ''system_version'' \<mapsto> JString (or_default (npm_package_version env) ''unknown''),
       ''environment'' \<mapsto> JString (or_default (NODE_ENV env) ''development''))"

definition audit_insert :: "process_env \<Rightarrow> string \<Rightarrow> CreateAuditRecord \<Rightarrow> AuditInsert" where
  "audit_insert env now r =
    \<lparr>insert_entity_type = entity_type r,
     insert_entity_id = entity_id r,
     insert_event_type = event_type r,
     insert_metadata = enhancedMetadata env now (metadata r)\<rparr>"

text \<open>The metadata the caller supplied; none is the empty object.\<close>

definition caller_metadata :: "CreateAuditRecord \<Rightarrow> (string \<rightharpoonup> json)" where
  "caller_metadata r = (case metadata r of None \<Rightarrow> Map.empty | Some m \<Rightarrow> m)"

text \<open>
  \<open>createAuditRecord\<close>. The store is a collaborator: \<open>db\<close> is what
  \<open>insert(row).select().single()\<close> answers, an error message or the stored row. A failure
  is thrown on as an \<open>Error\<close> with the message below.
\<close>

definition createAuditRecord ::
  "(AuditInsert \<Rightarrow> string + EventsAudit) \<Rightarrow> process_env \<Rightarrow> string \<Rightarrow> CreateAuditRecord
    \<Rightarrow> string + EventsAudit" where
  "createAuditRecord db env now r =
    (case db (audit_insert env now r) of
       Inl message \<Rightarrow> Inl (''Audit logging failed: '' @ message)
     | Inr auditRecord \<Rightarrow> Inr auditRecord)"

text \<open>
  \<open>createAuditRecords\<close>: every element reads the clock for its own time stamp
  (\<open>clock k\<close> for the element at index \<open>k\<close>), and the rows go to the store in one insert.
\<close>

definition enhancedRecords ::
  "process_env \<Rightarrow> (nat \<Rightarrow> string) \<Rightarrow> CreateAuditRecord list \<Rightarrow> AuditInsert list" where
  "enhancedRecords env clock records =
    map (\<lambda>(k, r). audit_insert env (clock k) r) (enumerate 0 records)"

definition createAuditRecords ::
  "(AuditInsert list \<Rightarrow> string + EventsAudit list option) \<Rightarrow> process_env \<Rightarrow> (nat \<Rightarrow> string)
    \<Rightarrow> CreateAuditRecord list \<Rightarrow> string + EventsAudit list" where
  "createAuditRecords db env clock records =
    (case db (enhancedRecords env clock records) of
       Inl message \<Rightarrow> Inl (''Batch audit logging failed: '' @ message)
     | Inr auditRecords \<Rightarrow> Inr (case auditRecords of None \<Rightarrow> [] | Some rs \<Rightarrow> rs))"

record AuditQueryFilters =
  filter_entity_type :: "string option"
  filter_entity_id :: "string option"
  filter_event_type :: "string option"
  onboarding_id :: "string option"
  customer_id :: "string option"
  date_from :: "string option"
  date_to :: "string option"
  source :: "string option"
  limit :: "int option"
  offset :: "int option"

text \<open>The calls on the query builder, in the order \<open>queryAuditTrail\<close> makes them.\<close>

datatype query_clause =
    Eq string string
  | Gte string string
  | Lte string string
  | Limit int
  | Range int int
  | Order_by string bool

text \<open>Truthiness of an optional string and of an optional number.\<close>

definition eq_clause :: "string \<Rightarrow> string option \<Rightarrow> (string \<Rightarrow> string \<Rightarrow> query_clause) \<Rightarrow> query_clause list" where
  "eq_clause column v mk = (case v of None \<Rightarrow> [] | Some x \<Rightarrow> if x = [] then [] else [mk column x])"

definition truthy_number :: "int option \<Rightarrow> bool" where
  "truthy_number v = (case v of None \<Rightarrow> False | Some n \<Rightarrow> n \<noteq> 0)"

definition audit_query :: "AuditQueryFilters \<Rightarrow> query_clause list" where
  "audit_query filters =
    eq_clause ''entity_type'' (filter_entity_type filters) Eq
    @ eq_clause ''entity_id'' (filter_entity_id filters) Eq
    @ eq_clause ''event_type'' (filter_event_type filters) Eq
    @ eq_clause ''metadata->onboarding_id'' (onboarding_id filters) Eq
    @ eq_clause ''metadata->customer_id'' (customer_id filters) Eq
    @ eq_clause ''created_at'' (date_from filters) Gte
    @ eq_clause ''created_at'' (date_to filters) Lte
    @ eq_clause ''metadata->source'' (source filters) Eq
    @ (if truthy_number (limit filters) then [Limit (the (limit filters))] else [])
    @ (if truthy_number (offset filters)
         then [Range (the (offset filters))
                 ((the (offset filters)
                    + (if truthy_number (limit filters) then the (limit filters) else 100)) - 1)]
       else [])
    @ [Order_by ''created_at'' False]"

text \<open>
  \<open>queryAuditTrail\<close>; \<open>db\<close> is what the store answers to the query: an error message,
  or the rows (possibly \<open>null\<close>).
\<close>

definition queryAuditTrail ::
  "(query_clause list \<Rightarrow> string + EventsAudit list option) \<Rightarrow> AuditQueryFilters
    \<Rightarrow> string + EventsAudit list" where
  "queryAuditTrail db filters =
    (case db (audit_query filters) of
       Inl message \<Rightarrow> Inl (''Audit query failed: '' @ message)
     | Inr auditRecords \<Rightarrow> Inr (case auditRecords of None \<Rightarrow> [] | Some rs \<Rightarrow> rs))"

text \<open>
  \<open>generateAuditSummary\<close> queries with the limit replaced by 10000 and aggregates the
  rows; the aggregation is the parameter \<open>aggregate\<close>.
\<close>

definition generateAuditSummary ::
  "(query_clause list \<Rightarrow> string + EventsAudit list option) \<Rightarrow> (EventsAudit list \<Rightarrow> 's)
    \<Rightarrow> AuditQueryFilters \<Rightarrow> string + 's" where
  "generateAuditSummary db aggregate filters =
    (case queryAuditTrail db (filters\<lparr>limit := Some 10000\<rparr>) of
       Inl message \<Rightarrow> Inl message
     | Inr auditRecords \<Rightarrow> Inr (aggregate auditRecords))"

section \<open>The audit query route (GET /api/audit)\<close>

text \<open>
  The query parameters as \<open>searchParams.get\<close> returns them. A numeric parameter is
  represented by the number \<open>parseInt\<close> makes of its text; \<open>None\<close> stands for a
  parameter that is absent or empty.
\<close>

record AuditSearchParams =
  param_summary :: "string option"
  param_entity_type :: "string option"
  param_entity_id :: "string option"
  param_event_type :: "string option"
  param_onboarding_id :: "string option"
  param_customer_id :: "string option"
  param_date_from :: "string option"
  param_date_to :: "string option"
  param_source :: "string option"
  param_limit :: "jsnum option"
  param_offset :: "jsnum option"

fun num_gt :: "jsnum \<Rightarrow> int \<Rightarrow> bool" where
  "num_gt (Num a) b = (a > b)"
| "num_gt NaN b = False"

definition string_filter :: "string option \<Rightarrow> string option" where
  "string_filter v = (case v of None \<Rightarrow> None | Some x \<Rightarrow> if x = [] then None else Some x)"

definition limit_filter :: "jsnum option \<Rightarrow> int option" where
  "limit_filter v =
    (case v of
       Some (Num n) \<Rightarrow> if n > 0 \<and> n \<le> 1000 then Some n else None
     | _ \<Rightarrow> None)"

definition offset_filter :: "jsnum option \<Rightarrow> int option" where
  "offset_filter v =
    (case v of
       Some (Num n) \<Rightarrow> if n \<ge> 0 then Some n else None
     | _ \<Rightarrow> None)"

definition build_filters :: "AuditSearchParams \<Rightarrow> AuditQueryFilters" where
  "build_filters params =
    \<lparr>filter_entity_type = string_filter (param_entity_type params),
     filter_entity_id = string_filter (param_entity_id params),
     filter_event_type = string_filter (param_event_type params),
     onboarding_id = string_filter (param_onboarding_id params),
     customer_id = string_filter (param_customer_id params),
     date_from = string_filter (param_date_from params),
     date_to = string_filter (param_date_to params),
     source = string_filter (param_source params),
     limit = limit_filter (param_limit params),
     offset = offset_filter (param_offset params)\<rparr>"

text \<open>The JSON answers of the route: the summary, the records, or the error with status 500.\<close>

datatype 's audit_response =
    Summary_json 's
  | Records_json "EventsAudit list" nat AuditQueryFilters
  | Error_json nat string string

definition GET ::
  "(query_clause list \<Rightarrow> string + EventsAudit list option) \<Rightarrow> (EventsAudit list \<Rightarrow> 's)
    \<Rightarrow> AuditSearchParams \<Rightarrow> 's audit_response" where
  "GET db aggregate params =
    (let filters = build_filters params in
     if param_summary params = Some ''true''
       then (case generateAuditSummary db aggregate filters of
               Inl message \<Rightarrow> Error_json 500 ''Failed to query audit trail'' message
             | Inr s \<Rightarrow> Summary_json s)
     else (case queryAuditTrail db filters of
             Inl message \<Rightarrow> Error_json 500 ''Failed to query audit trail'' message
           | Inr auditRecords \<Rightarrow> Records_json auditRecords (length auditRecords) filters))"

section \<open>Integration lifecycle (integration-lifecycle.ts)\<close>

datatype integration_type = SIS | CRM | SFTP | API | Other

datatype integration_status = Not_configured | Configured | Testing | Active | Failed_integration

record Integration =
  integration_id :: string
  integration_onboarding_id :: string
  integration_type :: integration_type
  integration_name :: string
  configuration :: "(string \<rightharpoonup> json) option"
  integration_status :: integration_status
  test_results :: "(string \<rightharpoonup> json) option"
  integration_created_at :: string

datatype test_type = Connectivity | Authentication | Data_flow | Configuration

text \<open>
  A test result. The field \<open>details\<close> (diagnostic values, some of them drawn from
  \<open>Math.random\<close>) is left out: nothing in the aggregation reads it.
\<close>

record IntegrationTestResult =
  success :: bool
  message :: string
  timestamp :: string
  test_type :: test_type

datatype validation_status = Passed | Failed | Warning

text \<open>The lines of \<open>next_steps\<close>, with the values the templates interpolate.\<close>

datatype next_step =
    Address_failed_tests nat
  | Fix_test test_type string
  | Step string

record IntegrationValidationResult =
  validated_integration_id :: string
  overall_status :: validation_status
  validation_test_results :: "IntegrationTestResult list"
  completion_percentage :: int
  next_steps :: "next_step list"

text \<open>Truthiness of the value of a key of a configuration; a missing key is \<open>undefined\<close>.\<close>

fun truthy :: "json option \<Rightarrow> bool" where
  "truthy None = False"
| "truthy (Some JNull) = False"
| "truthy (Some (JBool b)) = b"
| "truthy (Some (JNumber n)) = (n \<noteq> 0)"
| "truthy (Some (JString s)) = (s \<noteq> [])"
| "truthy (Some (JArray xs)) = True"
| "truthy (Some (JObject kvs)) = True"

text \<open>
  The four batteries of tests. \<open>now\<close> is \<open>new Date().toISOString()\<close>. Nothing in the
  \<open>try\<close> blocks throws on a configuration that is a plain object, so the \<open>catch\<close>
  branches are not reached.
\<close>

definition testSISIntegration :: "string \<Rightarrow> (string \<rightharpoonup> json) \<Rightarrow> IntegrationTestResult list" where
  "testSISIntegration now config =
    [\<lparr>success = True, message = ''SIS endpoint connectivity verified'',
      timestamp = now, test_type = Connectivity\<rparr>,
     \<lparr>success = truthy (config ''api_key''),
      message = (if truthy (config ''api_key'') then ''SIS authentication successful''
                 else ''SIS API key missing or invalid''),
      timestamp = now, test_type = Authentication\<rparr>,
     \<lparr>success = True, message = ''SIS data flow test completed successfully'',
      timestamp = now, test_type = Data_flow\<rparr>]"

definition testCRMIntegration :: "string \<Rightarrow> (string \<rightharpoonup> json) \<Rightarrow> IntegrationTestResult list" where
  "testCRMIntegration now config =
    [\<lparr>success = True, message = ''CRM endpoint connectivity verified'',
      timestamp = now, test_type = Connectivity\<rparr>,
     \<lparr>success = (truthy (config ''client_id'') \<and> truthy (config ''client_secret'')),
      message = (if truthy (config ''client_id'') \<and> truthy (config ''client_secret'')
                 then ''CRM OAuth authentication successful''
                 else ''CRM OAuth credentials missing or invalid''),
      timestamp = now, test_type = Authentication\<rparr>,
     \<lparr>success = True, message = ''CRM data synchronization test completed'',
      timestamp = now, test_type = Data_flow\<rparr>]"

definition testSFTPIntegration :: "string \<Rightarrow> (string \<rightharpoonup> json) \<Rightarrow> IntegrationTestResult list" where
  "testSFTPIntegration now config =
    [\<lparr>success = True, message = ''SFTP server connectivity verified'',
      timestamp = now, test_type = Connectivity\<rparr>,
     \<lparr>success = (truthy (config ''username'')
                  \<and> (truthy (config ''password'') \<or> truthy (config ''private_key''))),
      message = (if truthy (config ''username'')
                    \<and> (truthy (config ''password'') \<or> truthy (config ''private_key''))
                 then ''SFTP authentication successful''
                 else ''SFTP credentials missing (username and password/key required)''),
      timestamp = now, test_type = Authentication\<rparr>,
     \<lparr>success = True, message = ''SFTP file transfer test completed'',
      timestamp = now, test_type = Data_flow\<rparr>]"

definition testAPIIntegration :: "string \<Rightarrow> (string \<rightharpoonup> json) \<Rightarrow> IntegrationTestResult list" where
  "testAPIIntegration now config =
    [\<lparr>success = True, message = ''API endpoint connectivity verified'',
      timestamp = now, test_type = Connectivity\<rparr>,
     \<lparr>success = (truthy (config ''api_key'') \<or> truthy (config ''bearer_token'')),
      message = (if truthy (config ''api_key'') \<or> truthy (config ''bearer_token'')
                 then ''API authentication successful''
                 else ''API authentication credentials missing''),
      timestamp = now, test_type = Authentication\<rparr>,
     \<lparr>success = True, message = ''API configuration validation completed'',
      timestamp = now, test_type = Configuration\<rparr>]"

text \<open>\<open>integration.configuration || {}\<close>\<close>

definition configuration_or_empty :: "Integration \<Rightarrow> (string \<rightharpoonup> json)" where
  "configuration_or_empty integration =
    (case configuration integration of None \<Rightarrow> Map.empty | Some config \<Rightarrow> config)"

text \<open>The \<open>switch\<close> of \<open>runIntegrationTests\<close>.\<close>

definition testResults :: "string \<Rightarrow> Integration \<Rightarrow> IntegrationTestResult list" where
  "testResults now integration =
    (case integration_type integration of
       SIS \<Rightarrow> testSISIntegration now (configuration_or_empty integration)
     | CRM \<Rightarrow> testCRMIntegration now (configuration_or_empty integration)
     | SFTP \<Rightarrow> testSFTPIntegration now (configuration_or_empty integration)
     | API \<Rightarrow> testAPIIntegration now (configuration_or_empty integration)
     | Other \<Rightarrow>
         [\<lparr>success = True, message = ''Generic integration test for other'',
           timestamp = now, test_type = Configuration\<rparr>])"

text \<open>
  \<open>Math.round\<close> rounds to the nearest integer, a half towards plus infinity. The
  quotient is taken exactly; on the lists that \<open>runIntegrationTests\<close> builds (one or three
  tests) the double-precision quotient rounds to the same integer.
\<close>

definition Math_round :: "rat \<Rightarrow> int" where
  "Math_round x = \<lfloor>x + 1 / 2\<rfloor>"

definition completionPercentage :: "IntegrationTestResult list \<Rightarrow> int" where
  "completionPercentage tests =
    (let successfulTests = length (filter success tests);
         totalTests = length tests
     in if totalTests > 0 then Math_round ((of_nat successfulTests / of_nat totalTests) * 100)
        else 0)"

definition overallStatus :: "int \<Rightarrow> validation_status" where
  "overallStatus percentage =
    (if percentage = 100 then Passed
     else if percentage \<ge> 70 then Warning
     else Failed)"

definition nextSteps :: "IntegrationTestResult list \<Rightarrow> validation_status \<Rightarrow> next_step list" where
  "nextSteps tests st =
    (let failedTests = filter (\<lambda>t. \<not> success t) tests
     in (if length failedTests > 0
           then Address_failed_tests (length failedTests)
                # map (\<lambda>t. Fix_test (test_type t) (message t)) failedTests
         else [])
        @ (if st = Passed
             then [Step ''Integration ready for production use'',
                   Step ''Schedule go-live validation'']
           else if st = Warning
             then [Step ''Review warnings and optimize configuration'',
                   Step ''Consider additional testing before go-live'']
           else []))"

definition runIntegrationTests :: "string \<Rightarrow> Integration \<Rightarrow> IntegrationValidationResult" where
  "runIntegrationTests now integration =
    (let tests = testResults now integration;
         percentage = completionPercentage tests;
         st = overallStatus percentage
     in \<lparr>validated_integration_id = integration_id integration,
         overall_status = st,
         validation_test_results = tests,
         completion_percentage = percentage,
         next_steps = nextSteps tests st\<rparr>)"

text \<open>
  The credentials a type requires, in the words of the claim. A key counts as present
  when its value is truthy, which is what the code reports as \<open>key_present\<close>.
\<close>

definition key_present :: "(string \<rightharpoonup> json) \<Rightarrow> string \<Rightarrow> bool" where
  "key_present config k = truthy (config k)"

fun credentials_present :: "integration_type \<Rightarrow> (string \<rightharpoonup> json) \<Rightarrow> bool" where
  "credentials_present SIS config = key_present config ''api_key''"
| "credentials_present CRM config =
    (key_present config ''client_id'' \<and> key_present config ''client_secret'')"
| "credentials_present SFTP config =
    (key_present config ''username''
      \<and> (key_present config ''password'' \<or> key_present config ''private_key''))"
| "credentials_present API config =
    (key_present config ''api_key'' \<or> key_present config ''bearer_token'')"
| "credentials_present Other config = True"

section \<open>Example values\<close>

definition utc_start_of_day :: "int \<Rightarrow> int" where
  "utc_start_of_day t = t - t mod msPerDay"

definition example_task :: "string \<Rightarrow> string \<Rightarrow> task_status \<Rightarrow> level \<Rightarrow> jsdate option \<Rightarrow> OnboardingTask" where
  "example_task tt owner st p due =
    \<lparr>task_id = ''task-1'', task_onboarding_id = ''onboarding-1'', task_type = tt,
     title = ''Configure integration'', description = None, owner_role = owner,
     assigned_to = None, status = st, priority = p, due_date = due, completed_at = None,
     is_blocker = (st = Blocked), blocker_reason = None,
     task_created_at = ''2024-01-15T10:15:00Z''\<rparr>"

definition example_stakeholder :: "string \<Rightarrow> string \<Rightarrow> Stakeholder" where
  "example_stakeholder r e =
    \<lparr>stakeholder_id = ''stakeholder-1'', stakeholder_onboarding_id = ''onboarding-1'',
     role = r, name = ''Mike Chen'', email = e, phone = None, responsibilities = [],
     stakeholder_created_at = ''2024-01-15T10:05:00Z''\<rparr>"

definition example_now :: int where
  "example_now = 1762128000000"

definition example_clock :: "nat \<Rightarrow> int" where
  "example_clock k = example_now + int k"

definition days_ago :: "int \<Rightarrow> jsdate" where
  "days_ago n = Date (example_now - n * msPerDay)"

definition example_stakeholders :: "Stakeholder list" where
  "example_stakeholders =
    [example_stakeholder ''owner'' ''sarah.johnson@acme-university.edu'',
     example_stakeholder ''technical_lead'' ''david.kim@global-ent.com'',
     example_stakeholder ''project_manager'' ''lisa.rodriguez@techcorp.com'',
     example_stakeholder ''technical_lead'' ''second.lead@global-ent.com'']"

definition example_time :: string where
  "example_time = ''2025-11-03T00:00:00.000Z''"

definition example_time_clock :: "nat \<Rightarrow> string" where
  "example_time_clock k = (if k = 0 then example_time else ''2025-11-03T00:00:00.001Z'')"

definition example_env :: process_env where
  "example_env = \<lparr>npm_package_version = Some ''0.1.0'', NODE_ENV = None\<rparr>"

definition example_audit_record :: CreateAuditRecord where
  "example_audit_record =
    \<lparr>entity_type = ''task'', entity_id = ''task-1'', event_type = ''task_created'',
     metadata = Some [''task_id'' \<mapsto> JString ''task-1'']\<rparr>"

definition no_rows :: "query_clause list \<Rightarrow> string + EventsAudit list option" where
  "no_rows q = Inr (Some [])"

definition count_rows :: "EventsAudit list \<Rightarrow> nat" where
  "count_rows rs = length rs"

definition example_params :: AuditSearchParams where
  "example_params =
    \<lparr>param_summary = None, param_entity_type = Some ''task'', param_entity_id = None,
     param_event_type = None, param_onboarding_id = None, param_customer_id = None,
     param_date_from = None, param_date_to = None, param_source = None,
     param_limit = None, param_offset = None\<rparr>"

definition example_integration :: "integration_type \<Rightarrow> (string \<rightharpoonup> json) option \<Rightarrow> Integration" where
  "example_integration ty config =
    \<lparr>integration_id = ''integration-1'', integration_onboarding_id = ''onboarding-1'',
     integration_type = ty, integration_name = ''PowerSchool SIS'', configuration = config,
     integration_status = Testing, test_results = None,
     integration_created_at = ''2024-01-15T10:10:00Z''\<rparr>"

section \<open>Properties of the escalation logic\<close>

lemma applicable_rule_cases:
  "applicable_rule tt \<in> set ESCALATION_RULES \<or> applicable_rule tt = DEFAULT_ESCALATION_RULE"
proof (cases "find (\<lambda>r. EscalationRule.taskType r = tt) ESCALATION_RULES")
  case None
  then show ?thesis by (simp add: applicable_rule_def)
next
  case (Some r)
  then have "r \<in> set ESCALATION_RULES" by (auto simp: find_Some_iff)
  with Some show ?thesis by (simp add: applicable_rule_def)
qed

lemma applicable_rule_chain_nonempty: "escalationChain (applicable_rule tt) \<noteq> []"
  using applicable_rule_cases[of tt]
  by (auto simp: DEFAULT_ESCALATION_RULE_def ESCALATION_RULES_def)

lemma threshold_three_in_table:
  "r \<in> set ESCALATION_RULES \<Longrightarrow> overdueThresholdDays r = 3 \<Longrightarrow> length (escalationChain r) = 2"
  by (auto simp: ESCALATION_RULES_def)

lemma threshold_three_chain:
  "overdueThresholdDays (applicable_rule tt) = 3 \<Longrightarrow> length (escalationChain (applicable_rule tt)) = 2"
  using applicable_rule_cases[of tt] threshold_three_in_table[of "applicable_rule tt"]
  by (auto simp: DEFAULT_ESCALATION_RULE_def)

lemma escalationLevel_mono:
  assumes "d1 \<le> d2" "\<not> num_lt (Num d1) (overdueThresholdDays rule)" "escalationChain rule \<noteq> []"
  shows "escalationLevel rule (Num d1) \<le> escalationLevel rule (Num d2)"
  using assms by (cases "escalationChain rule") (auto simp: escalationLevel_def)

lemma escalateTo_length_mono:
  assumes "d1 \<le> d2" "\<not> num_lt (Num d1) (overdueThresholdDays rule)"
  shows "length (slice0 (escalationChain rule) (escalationLevel rule (Num d1) + 1))
     \<le> length (slice0 (escalationChain rule) (escalationLevel rule (Num d2) + 1))"
  using assms by (auto simp: escalationLevel_def slice0_def)

lemma shouldEscalate_unfold:
  assumes "due_date task = Some due" "days_overdue sod now due = Num d"
    "shouldEscalate (shouldEscalateTask sod now task)"
  shows "\<not> num_lt (Num d) (overdueThresholdDays (applicable_rule (task_type task)))
    \<and> EscalationResult.escalateTo (shouldEscalateTask sod now task)
        = slice0 (escalationChain (applicable_rule (task_type task)))
            (escalationLevel (applicable_rule (task_type task)) (Num d) + 1)"
  using assms
  by (auto simp: shouldEscalateTask_def escalate_by_rule_def Let_def split: if_splits)

lemma example_task_sel:
  "due_date (example_task tt ow st p due) = due"
  "task_type (example_task tt ow st p due) = tt"
  "status (example_task tt ow st p due) = st"
  "owner_role (example_task tt ow st p due) = ow"
  "priority (example_task tt ow st p due) = p"
  by (simp_all add: example_task_def)

lemma example_stakeholder_sel:
  "role (example_stakeholder r e) = r"
  "email (example_stakeholder r e) = e"
  by (simp_all add: example_stakeholder_def)

lemma days_ago_overdue: "days_overdue utc_start_of_day example_now (days_ago n) = Num n"
  by (simp add: days_overdue_def days_ago_def utc_start_of_day_def example_now_def msPerDay_def)

lemma applicable_rule_sis_setup:
  "overdueThresholdDays (applicable_rule ''sis_setup'') = 2"
  "escalationChain (applicable_rule ''sis_setup'') = [''technical_lead'', ''project_manager'', ''owner'']"
  by (simp_all add: applicable_rule_def ESCALATION_RULES_def)

lemma applicable_rule_crm_setup:
  "overdueThresholdDays (applicable_rule ''crm_setup'') = 3"
  "escalationChain (applicable_rule ''crm_setup'') = [''technical_lead'', ''project_manager'']"
  "EscalationRule.urgencyLevel (applicable_rule ''crm_setup'') = High"
  by (simp_all add: applicable_rule_def ESCALATION_RULES_def)

lemma overdue_example_result:
  "n > 0 \<Longrightarrow>
    shouldEscalateTask utc_start_of_day example_now (example_task tt ow st p (Some (days_ago n)))
      = escalate_by_rule (applicable_rule tt) (Num n)"
  by (simp add: shouldEscalateTask_def example_task_sel days_ago_overdue)

text \<open>
  Claim C1. A task whose due date lies 10 days back, under a rule with a threshold of
  3 days and a chain of at least two roles, is escalated at tier index 1: the roles to
  escalate to are the first two of the rule's chain. Ten days reach three times the
  threshold, so the tier is the deepest one the chain allows up to index 2; every rule of
  the table with threshold 3, the default rule included, has a chain of two roles, which
  makes that tier index 1.
\<close>

theorem shouldEscalateTask_ten_days_threshold_three:
  assumes "due_date task = Some due"
    and "days_overdue sod now due = Num 10"
    and "overdueThresholdDays (applicable_rule (task_type task)) = 3"
    and "length (escalationChain (applicable_rule (task_type task))) \<ge> 2"
  shows "shouldEscalate (shouldEscalateTask sod now task)
    \<and> escalationLevel (applicable_rule (task_type task)) (Num 10) = 1
    \<and> escalationLevel (applicable_rule (task_type task)) (Num 10)
        = min (int (length (escalationChain (applicable_rule (task_type task)))) - 1) 2
    \<and> EscalationResult.escalateTo (shouldEscalateTask sod now task)
        = take 2 (escalationChain (applicable_rule (task_type task)))
    \<and> length (EscalationResult.escalateTo (shouldEscalateTask sod now task)) = 2"
  using assms threshold_three_chain[of "task_type task"]
  by (simp add: shouldEscalateTask_def escalate_by_rule_def escalationLevel_def slice0_def Let_def)

theorem shouldEscalateTask_ten_days_threshold_three_witness:
  "shouldEscalateTask utc_start_of_day example_now
      (example_task ''crm_setup'' ''it_contact'' Pending High (Some (days_ago 10)))
    = \<lparr>shouldEscalate = True, escalateTo = [''technical_lead'', ''project_manager''],
       urgencyLevel = High, escalationReason = Overdue_by (Num 10) 3, daysOverdue = Num 10\<rparr>"
  using shouldEscalateTask_ten_days_threshold_three
    [of "example_task ''crm_setup'' ''it_contact'' Pending High (Some (days_ago 10))"
        "days_ago 10" utc_start_of_day example_now]
  by (simp add: example_task_sel days_ago_overdue applicable_rule_crm_setup
        overdue_example_result escalate_by_rule_def escalationLevel_def slice0_def)

lemma findTasksNeedingEscalation_filter:
  "findTasksNeedingEscalation sod clock (filter (\<lambda>t. status t \<noteq> Completed) tasks)
     = findTasksNeedingEscalation sod clock tasks"
  by (induction tasks arbitrary: clock) (simp_all add: Let_def)

lemma findTasksNeedingEscalation_member:
  "(task, r) \<in> set (findTasksNeedingEscalation sod clock tasks) \<Longrightarrow>
     task \<in> set tasks \<and> status task \<noteq> Completed \<and> shouldEscalate r
       \<and> (\<exists>k. r = shouldEscalateTask sod (clock k) task)"
proof (induction tasks arbitrary: clock)
  case Nil
  then show ?case by simp
next
  case (Cons t ts)
  show ?case
  proof (cases "status t = Completed")
    case True
    with Cons.prems have "(task, r) \<in> set (findTasksNeedingEscalation sod clock ts)" by simp
    from Cons.IH[OF this] show ?thesis by auto
  next
    case False
    let ?r = "shouldEscalateTask sod (clock 0) t"
    from False Cons.prems have "(task, r) = (t, ?r) \<and> shouldEscalate ?r
        \<or> (task, r) \<in> set (findTasksNeedingEscalation sod (\<lambda>k. clock (Suc k)) ts)"
      by (auto simp: Let_def split: if_splits)
    then show ?thesis
    proof
      assume "(task, r) = (t, ?r) \<and> shouldEscalate ?r"
      with False show ?thesis by auto
    next
      assume "(task, r) \<in> set (findTasksNeedingEscalation sod (\<lambda>k. clock (Suc k)) ts)"
      from Cons.IH[OF this] show ?thesis by auto
    qed
  qed
qed

text \<open>
  Claim C5. \<open>findTasksNeedingEscalation\<close> never returns a completed task: completed
  tasks are dropped before the overdue logic runs (the result is that of the list without
  them), and every pair returned holds a task of the list together with the result of
  \<open>shouldEscalateTask\<close> on it, whose \<open>shouldEscalate\<close> is true.
\<close>

theorem findTasksNeedingEscalation_excludes_completed:
  "(\<forall>(task, r) \<in> set (findTasksNeedingEscalation sod clock tasks).
      task \<in> set tasks \<and> status task \<noteq> Completed \<and> shouldEscalate r
        \<and> (\<exists>k. r = shouldEscalateTask sod (clock k) task))
   \<and> findTasksNeedingEscalation sod clock (filter (\<lambda>t. status t \<noteq> Completed) tasks)
        = findTasksNeedingEscalation sod clock tasks"
  using findTasksNeedingEscalation_member[of _ _ sod clock tasks]
  by (auto simp: findTasksNeedingEscalation_filter)

theorem findTasksNeedingEscalation_excludes_completed_witness:
  "findTasksNeedingEscalation utc_start_of_day example_clock
      [example_task ''crm_setup'' ''it_contact'' Completed High (Some (days_ago 10)),
       example_task ''crm_setup'' ''it_contact'' Pending High (Some (days_ago 10))]
     = [(example_task ''crm_setup'' ''it_contact'' Pending High (Some (days_ago 10)),
         escalate_by_rule (applicable_rule ''crm_setup'') (Num 10))]
   \<and> status (example_task ''crm_setup'' ''it_contact'' Pending High (Some (days_ago 10)))
        \<noteq> Completed
   \<and> shouldEscalate (escalate_by_rule (applicable_rule ''crm_setup'') (Num 10))"
  using findTasksNeedingEscalation_excludes_completed
    [of utc_start_of_day example_clock
        "[example_task ''crm_setup'' ''it_contact'' Completed High (Some (days_ago 10)),
          example_task ''crm_setup'' ''it_contact'' Pending High (Some (days_ago 10))]"]
  by (simp add: example_task_sel example_clock_def overdue_example_result
        escalate_by_rule_def applicable_rule_crm_setup)

text \<open>
  Claim C6. For a fixed rule (two tasks of one task type), the escalation tier is
  monotone in the days overdue: when both tasks are escalated and the first is overdue by
  no more days than the second, the tier of the first is at most the tier of the second,
  and so is the number of roles it is escalated to.
\<close>

theorem shouldEscalateTask_tier_monotone:
  assumes "task_type t1 = task_type t2"
    and "due_date t1 = Some due1" and "due_date t2 = Some due2"
    and "days_overdue sod now1 due1 = Num d1" and "days_overdue sod now2 due2 = Num d2"
    and "d1 \<le> d2"
    and "shouldEscalate (shouldEscalateTask sod now1 t1)"
    and "shouldEscalate (shouldEscalateTask sod now2 t2)"
  shows "escalationLevel (applicable_rule (task_type t1)) (Num d1)
           \<le> escalationLevel (applicable_rule (task_type t2)) (Num d2)
    \<and> length (EscalationResult.escalateTo (shouldEscalateTask sod now1 t1))
           \<le> length (EscalationResult.escalateTo (shouldEscalateTask sod now2 t2))"
proof -
  let ?rule = "applicable_rule (task_type t1)"
  from shouldEscalate_unfold[OF assms(2,4,7)]
  have a: "\<not> num_lt (Num d1) (overdueThresholdDays ?rule)"
    and e1: "EscalationResult.escalateTo (shouldEscalateTask sod now1 t1)
        = slice0 (escalationChain ?rule) (escalationLevel ?rule (Num d1) + 1)" by auto
  from shouldEscalate_unfold[OF assms(3,5,8)] assms(1)
  have e2: "EscalationResult.escalateTo (shouldEscalateTask sod now2 t2)
        = slice0 (escalationChain ?rule) (escalationLevel ?rule (Num d2) + 1)" by auto
  have "escalationLevel ?rule (Num d1) \<le> escalationLevel ?rule (Num d2)"
    using escalationLevel_mono[OF assms(6) a applicable_rule_chain_nonempty] .
  moreover have "length (slice0 (escalationChain ?rule) (escalationLevel ?rule (Num d1) + 1))
     \<le> length (slice0 (escalationChain ?rule) (escalationLevel ?rule (Num d2) + 1))"
    using escalateTo_length_mono[OF assms(6) a] .
  ultimately show ?thesis using e1 e2 assms(1) by simp
qed

theorem shouldEscalateTask_tier_monotone_witness:
  "escalationLevel (applicable_rule ''sis_setup'') (Num 2) = 0
   \<and> escalationLevel (applicable_rule ''sis_setup'') (Num 6) = 2
   \<and> length (EscalationResult.escalateTo (shouldEscalateTask utc_start_of_day example_now
        (example_task ''sis_setup'' ''it_contact'' Pending High (Some (days_ago 2)))))
     \<le> length (EscalationResult.escalateTo (shouldEscalateTask utc_start_of_day example_now
        (example_task ''sis_setup'' ''it_contact'' Blocked Critical (Some (days_ago 6)))))"
  using shouldEscalateTask_tier_monotone
    [of "example_task ''sis_setup'' ''it_contact'' Pending High (Some (days_ago 2))"
        "example_task ''sis_setup'' ''it_contact'' Blocked Critical (Some (days_ago 6))"
        "days_ago 2" "days_ago 6" utc_start_of_day example_now 2 example_now 6]
  by (simp add: example_task_sel days_ago_overdue overdue_example_result
        applicable_rule_sis_setup escalate_by_rule_def escalationLevel_def)

text \<open>
  Claim C7. For a task of type \<open>sis_setup\<close> owned by \<open>it_contact\<close> and a list of
  stakeholders that holds a \<open>technical_lead\<close> and a \<open>project_manager\<close>,
  \<open>getBlockerEscalationRecipients\<close> returns exactly the two e-mails (of the first
  stakeholder of each role), the technical lead's first, with urgency \<open>critical\<close>.
\<close>

theorem getBlockerEscalationRecipients_sis_setup:
  assumes "task_type task = ''sis_setup''" and "owner_role task = ''it_contact''"
    and "find (\<lambda>s. role s = ''technical_lead'') stakeholders = Some lead"
    and "find (\<lambda>s. role s = ''project_manager'') stakeholders = Some pm"
  shows "getBlockerEscalationRecipients task stakeholders
     = Inr \<lparr>escalateTo = [email lead, email pm], urgencyLevel = Critical\<rparr>"
  using assms
  by (simp add: getBlockerEscalationRecipients_def get_property_def escalationMap_def
        blockerUrgency_def)

theorem getBlockerEscalationRecipients_sis_setup_witness:
  "getBlockerEscalationRecipients
      (example_task ''sis_setup'' ''it_contact'' Blocked Medium None) example_stakeholders
     = Inr \<lparr>escalateTo = [''david.kim@global-ent.com'', ''lisa.rodriguez@techcorp.com''],
            urgencyLevel = Critical\<rparr>"
  using getBlockerEscalationRecipients_sis_setup
    [of "example_task ''sis_setup'' ''it_contact'' Blocked Medium None" example_stakeholders
        "example_stakeholder ''technical_lead'' ''david.kim@global-ent.com''"
        "example_stakeholder ''project_manager'' ''lisa.rodriguez@techcorp.com''"]
  by (simp add: example_task_sel example_stakeholders_def example_stakeholder_sel)

section \<open>Properties of the task assignment\<close>

lemma find_append_case:
  "find P (xs @ ys) = (case find P xs of None \<Rightarrow> find P ys | Some x \<Rightarrow> Some x)"
  by (induction xs) simp_all

lemma map_of_rules_find:
  "map_of INTEGRATION_TASK_RULES tt
     = find (\<lambda>r. TaskAssignmentRule.taskType r = tt) (map snd INTEGRATION_TASK_RULES)"
  by (simp add: INTEGRATION_TASK_RULES_def)

lemma rule_for_eq:
  "rule_for tt =
    (case map_of INTEGRATION_TASK_RULES tt of
       Some r \<Rightarrow> Some r
     | None \<Rightarrow> find (\<lambda>r. TaskAssignmentRule.taskType r = tt) TASK_ASSIGNMENT_RULES)"
  by (simp add: rule_for_def find_append_case map_of_rules_find split: option.splits)

lemma prototype_key_no_rule:
  "k \<in> set object_prototype_keys \<Longrightarrow>
     find (\<lambda>r. TaskAssignmentRule.taskType r = k) TASK_ASSIGNMENT_RULES = None"
  by (auto simp: object_prototype_keys_def TASK_ASSIGNMENT_RULES_def)

lemma assignTaskToStakeholder_rule_for:
  "assignTaskToStakeholder tt sh =
    (case rule_for tt of
       None \<Rightarrow> \<lparr>ownerRole = ''project_manager'',
                 assignedTo = email_of_role ''project_manager'' sh\<rparr>
     | Some rule \<Rightarrow> assign_by_rule rule sh)"
proof (cases "map_of INTEGRATION_TASK_RULES tt")
  case (Some r)
  then show ?thesis
    by (simp add: assignTaskToStakeholder_def get_property_def rule_for_eq)
next
  case None
  show ?thesis
  proof (cases "tt \<in> set object_prototype_keys")
    case True
    with None prototype_key_no_rule[OF True] show ?thesis
      by (simp add: assignTaskToStakeholder_def get_property_def rule_for_eq)
  next
    case False
    with None show ?thesis
      by (simp add: assignTaskToStakeholder_def get_property_def rule_for_eq split: option.splits)
  qed
qed

lemma assign_preferred_none:
  "(\<forall>r \<in> set roles. \<not> has_stakeholder sh r) \<Longrightarrow> assign_preferred roles sh = None"
  by (induction roles) (auto simp: has_stakeholder_def)

lemma assign_preferred_first:
  "i < length roles \<Longrightarrow> find (\<lambda>s. role s = roles ! i) sh = Some s
    \<Longrightarrow> (\<forall>j < i. \<not> has_stakeholder sh (roles ! j))
    \<Longrightarrow> assign_preferred roles sh = Some \<lparr>ownerRole = roles ! i, assignedTo = Some (email s)\<rparr>"
proof (induction roles arbitrary: i)
  case Nil
  then show ?case by simp
next
  case (Cons r rs)
  show ?case
  proof (cases i)
    case 0
    with Cons.prems show ?thesis by simp
  next
    case (Suc k)
    with Cons.prems have "\<not> has_stakeholder sh r" by auto
    moreover from Suc Cons.prems
    have "assign_preferred rs sh = Some \<lparr>ownerRole = rs ! k, assignedTo = Some (email s)\<rparr>"
      by (intro Cons.IH) auto
    ultimately show ?thesis using Suc by (simp add: has_stakeholder_def)
  qed
qed

text \<open>
  Claim C4. \<open>assignTaskToStakeholder\<close> looks the rule of the task type up. Without a rule
  the owner role is \<open>project_manager\<close> (assigned to the first project manager, if any).
  With a rule, the result is the first preferred role that some stakeholder has, together
  with the e-mail of the first stakeholder of that role; when no preferred role has a
  stakeholder, it is the fallback role, assigned to the first stakeholder of that role if
  there is one and to nobody otherwise.
\<close>

theorem assignTaskToStakeholder_follows_rule:
  "(rule_for tt = None \<longrightarrow>
      assignTaskToStakeholder tt sh
        = \<lparr>ownerRole = ''project_manager'',
           assignedTo = map_option email (find (\<lambda>s. role s = ''project_manager'') sh)\<rparr>)
   \<and> (\<forall>rule i s. rule_for tt = Some rule \<and> i < length (preferredRoles rule)
         \<and> find (\<lambda>s. role s = preferredRoles rule ! i) sh = Some s
         \<and> (\<forall>j < i. \<not> has_stakeholder sh (preferredRoles rule ! j))
       \<longrightarrow> assignTaskToStakeholder tt sh
             = \<lparr>ownerRole = preferredRoles rule ! i, assignedTo = Some (email s)\<rparr>)
   \<and> (\<forall>rule. rule_for tt = Some rule
         \<and> (\<forall>r \<in> set (preferredRoles rule). \<not> has_stakeholder sh r)
       \<longrightarrow> assignTaskToStakeholder tt sh
             = \<lparr>ownerRole = fallbackRole rule,
                assignedTo = map_option email (find (\<lambda>s. role s = fallbackRole rule) sh)\<rparr>)"
  by (auto simp: assignTaskToStakeholder_rule_for assign_by_rule_def assign_preferred_first
        assign_preferred_none email_of_role_def)

lemma rule_for_examples:
  "rule_for ''unknown_task'' = None"
  "preferredRoles (the (rule_for ''sis_setup'')) = [''it_contact'', ''technical_lead'']"
  "rule_for ''sis_setup'' \<noteq> None"
  "preferredRoles (the (rule_for ''api_testing'')) = [''technical_lead'']"
  "fallbackRole (the (rule_for ''api_testing'')) = ''technical_lead''"
  "rule_for ''api_testing'' \<noteq> None"
  by (simp_all add: rule_for_def INTEGRATION_TASK_RULES_def TASK_ASSIGNMENT_RULES_def)

theorem assignTaskToStakeholder_follows_rule_witness:
  "assignTaskToStakeholder ''unknown_task'' example_stakeholders
     = \<lparr>ownerRole = ''project_manager'', assignedTo = Some ''lisa.rodriguez@techcorp.com''\<rparr>
   \<and> assignTaskToStakeholder ''sis_setup'' example_stakeholders
     = \<lparr>ownerRole = ''technical_lead'', assignedTo = Some ''david.kim@global-ent.com''\<rparr>
   \<and> assignTaskToStakeholder ''api_testing''
        [example_stakeholder ''owner'' ''sarah.johnson@acme-university.edu'']
     = \<lparr>ownerRole = ''technical_lead'', assignedTo = None\<rparr>"
proof -
  have a: "assignTaskToStakeholder ''unknown_task'' example_stakeholders
     = \<lparr>ownerRole = ''project_manager'', assignedTo = Some ''lisa.rodriguez@techcorp.com''\<rparr>"
    using assignTaskToStakeholder_follows_rule[of "''unknown_task''" example_stakeholders]
    by (simp add: rule_for_examples example_stakeholders_def example_stakeholder_sel)
  obtain rule where r: "rule_for ''sis_setup'' = Some rule"
    using rule_for_examples(3) by auto
  with rule_for_examples(2) have pr: "preferredRoles rule = [''it_contact'', ''technical_lead'']"
    by simp
  have "assignTaskToStakeholder ''sis_setup'' example_stakeholders
      = \<lparr>ownerRole = preferredRoles rule ! 1,
         assignedTo = Some (email (example_stakeholder ''technical_lead'' ''david.kim@global-ent.com''))\<rparr>"
    using assignTaskToStakeholder_follows_rule[of "''sis_setup''" example_stakeholders] r
    apply (elim conjE)
    apply (drule spec[of _ rule], drule spec[of _ 1],
           drule spec[of _ "example_stakeholder ''technical_lead'' ''david.kim@global-ent.com''"])
    apply (erule mp)
    apply (simp add: pr example_stakeholders_def example_stakeholder_sel has_stakeholder_def)
    done
  then have b: "assignTaskToStakeholder ''sis_setup'' example_stakeholders
     = \<lparr>ownerRole = ''technical_lead'', assignedTo = Some ''david.kim@global-ent.com''\<rparr>"
    by (simp add: pr example_stakeholder_sel)
  obtain rule2 where r2: "rule_for ''api_testing'' = Some rule2"
    using rule_for_examples(6) by auto
  with rule_for_examples(4,5)
  have pr2: "preferredRoles rule2 = [''technical_lead'']" "fallbackRole rule2 = ''technical_lead''"
    by simp_all
  have c: "assignTaskToStakeholder ''api_testing''
        [example_stakeholder ''owner'' ''sarah.johnson@acme-university.edu'']
     = \<lparr>ownerRole = ''technical_lead'', assignedTo = None\<rparr>"
    using assignTaskToStakeholder_follows_rule[of "''api_testing''"
        "[example_stakeholder ''owner'' ''sarah.johnson@acme-university.edu'']"] r2
    by (simp add: pr2 example_stakeholder_sel has_stakeholder_def)
  from a b c show ?thesis by simp
qed

lemma dueDays_valid_positive:
  "goLiveDate \<noteq> Some InvalidDate \<Longrightarrow>
     \<exists>d. dueDays now tt goLiveDate cs = Num d \<and> 1 \<le> d"
  by (auto simp: dueDays_def split: option.splits jsdate.splits)

lemma dueDays_go_live_default:
  "go_live_family tt \<Longrightarrow> dueDays now tt None cs = Num 14"
  by (simp add: dueDays_def go_live_family_def)

lemma dueDays_fourteen_iff:
  "dueDays now tt None cs = Num 14 \<longleftrightarrow> go_live_family tt"
  by (auto simp: dueDays_def go_live_family_def split: if_splits)

lemma dueDays_past_go_live:
  assumes "go_live_family tt" and "goLive \<le> now"
  shows "dueDays now tt (Some (Date goLive)) cs = Num 1"
proof -
  have "(goLive - now) div msPerDay \<le> 0"
    using assms(2) by (simp add: msPerDay_def div_nonpos_pos_le0)
  then show ?thesis using assms(1) by (simp add: dueDays_def go_live_family_def)
qed

lemma go_live_preparation_family: "go_live_family ''go_live_preparation''"
  by (simp add: go_live_family_def)

text \<open>
  A go-live date is a date: the onboarding route refuses a value that does not parse
  before it is stored. On a string that does not parse, the go-live branch computes
  \<open>Math.max(1, NaN)\<close> and the result is an invalid date.
\<close>

lemma calculateTaskDueDate_unparseable_go_live_date:
  "calculateTaskDueDate now ''go_live_preparation'' (Some InvalidDate) customerSize = InvalidDate"
  by (simp add: calculateTaskDueDate_def dueDays_def)

text \<open>
  Claim C8. For every task type, every go-live date (absent, or a date) and every
  customer size, \<open>calculateTaskDueDate\<close> returns the date a whole number \<open>d \<ge> 1\<close>
  of days after the time of the call, hence a date strictly later than that time. This
  includes a go-live date in the past: the go-live branch then clamps to one day. The
  result is a function of the time of the call and the arguments. Without a go-live date,
  a go-live task is due 14 days after the call: the horizon of 14 days is that of exactly
  the task types the go-live branch handles, \<open>go_live_preparation\<close> among them.
\<close>

theorem calculateTaskDueDate_in_future:
  assumes "goLiveDate \<noteq> Some InvalidDate"
  shows "(\<exists>d \<ge> 1. dueDays now tt goLiveDate customerSize = Num d
            \<and> calculateTaskDueDate now tt goLiveDate customerSize = Date (now + d * msPerDay))
    \<and> later_than (calculateTaskDueDate now tt goLiveDate customerSize) now
    \<and> (\<forall>goLive. goLiveDate = Some (Date goLive) \<and> goLive \<le> now \<and> go_live_family tt
          \<longrightarrow> calculateTaskDueDate now tt goLiveDate customerSize = Date (now + 1 * msPerDay))
    \<and> (goLiveDate = None \<and> go_live_family tt
          \<longrightarrow> calculateTaskDueDate now tt goLiveDate customerSize = Date (now + 14 * msPerDay))
    \<and> (dueDays now tt None customerSize = Num 14 \<longleftrightarrow> go_live_family tt)
    \<and> calculateTaskDueDate now ''go_live_preparation'' None customerSize
          = Date (now + 14 * msPerDay)"
proof -
  from dueDays_valid_positive[OF assms] obtain d
    where d: "dueDays now tt goLiveDate customerSize = Num d" "1 \<le> d" by blast
  have 1: "calculateTaskDueDate now tt goLiveDate customerSize = Date (now + d * msPerDay)"
    using d by (simp add: calculateTaskDueDate_def msPerDay_def)
  have 2: "later_than (calculateTaskDueDate now tt goLiveDate customerSize) now"
    using d 1 by (simp add: msPerDay_def)
  have 3: "\<forall>goLive. goLiveDate = Some (Date goLive) \<and> goLive \<le> now \<and> go_live_family tt
          \<longrightarrow> calculateTaskDueDate now tt goLiveDate customerSize = Date (now + 1 * msPerDay)"
    by (auto simp: dueDays_past_go_live calculateTaskDueDate_def msPerDay_def)
  have 4: "goLiveDate = None \<and> go_live_family tt
        \<longrightarrow> calculateTaskDueDate now tt goLiveDate customerSize = Date (now + 14 * msPerDay)"
    by (auto simp: dueDays_go_live_default calculateTaskDueDate_def msPerDay_def)
  have 5: "dueDays now tt None customerSize = Num 14 \<longleftrightarrow> go_live_family tt"
    by (rule dueDays_fourteen_iff)
  have 6: "calculateTaskDueDate now ''go_live_preparation'' None customerSize
          = Date (now + 14 * msPerDay)"
    using dueDays_go_live_default[OF go_live_preparation_family]
    by (simp add: calculateTaskDueDate_def msPerDay_def)
  from 1 2 3 4 5 6 d show ?thesis by blast
qed

theorem calculateTaskDueDate_in_future_witness:
  "calculateTaskDueDate example_now ''go_live_preparation'' None None
     = Date (example_now + 14 * msPerDay)
   \<and> calculateTaskDueDate example_now ''go_live_preparation'' (Some (days_ago 30)) None
     = Date (example_now + 1 * msPerDay)
   \<and> later_than
       (calculateTaskDueDate example_now ''go_live_preparation'' (Some (days_ago 30)) None)
       example_now
   \<and> later_than
       (calculateTaskDueDate example_now ''security_review'' None (Some ''enterprise''))
       example_now"
  using calculateTaskDueDate_in_future[of None example_now "''go_live_preparation''" None]
    calculateTaskDueDate_in_future
      [of "Some (days_ago 30)" example_now "''go_live_preparation''" None]
    calculateTaskDueDate_in_future
      [of None example_now "''security_review''" "Some ''enterprise''"]
  by (simp add: go_live_preparation_family days_ago_def dueDays_def msPerDay_def
        example_now_def calculateTaskDueDate_def)

section \<open>Properties of the audit trail\<close>

lemma enhancedMetadata_keys:
  "enhancedMetadata env now md ''timestamp'' = Some (JString now)"
  "enhancedMetadata env now md ''system_version''
     = Some (JString (or_default (npm_package_version env) ''unknown''))"
  "enhancedMetadata env now md ''environment''
     = Some (JString (or_default (NODE_ENV env) ''development''))"
  "k \<notin> {''timestamp'', ''system_version'', ''environment''} \<Longrightarrow>
     enhancedMetadata env now md k = (case md of None \<Rightarrow> Map.empty | Some m \<Rightarrow> m) k"
  by (simp_all add: enhancedMetadata_def)

text \<open>
  Claim C2, as stated, fails: for a record whose caller supplied neither \<open>source\<close> nor
  \<open>trigger\<close>, the metadata given to the store holds neither.
\<close>

theorem createAuditRecord_adds_no_source:
  "insert_metadata (audit_insert example_env example_time example_audit_record) ''source'' = None
   \<and> insert_metadata (audit_insert example_env example_time example_audit_record) ''trigger''
       = None"
  by (simp add: audit_insert_def enhancedMetadata_def example_audit_record_def)

text \<open>
  Claim C2, amended. \<open>createAuditRecord\<close> gives the store one row, and
  \<open>createAuditRecords\<close> one such row for each element. The metadata of the row is the
  caller's metadata with three keys set: \<open>timestamp\<close> (the time of the call),
  \<open>system_version\<close> and \<open>environment\<close> (from the process environment, with the defaults
  \<open>unknown\<close> and \<open>development\<close>). Every other key, \<open>source\<close> and \<open>trigger\<close>
  included, is as the caller supplied it, and absent when the caller did not supply it.
\<close>

theorem createAuditRecord_enriches_metadata:
  "(let row = audit_insert env now r; m = insert_metadata row
    in createAuditRecord db env now r
         = (case db row of
              Inl e \<Rightarrow> Inl (''Audit logging failed: '' @ e)
            | Inr a \<Rightarrow> Inr a)
     \<and> m ''timestamp'' = Some (JString now)
     \<and> m ''system_version'' = Some (JString (or_default (npm_package_version env) ''unknown''))
     \<and> m ''environment'' = Some (JString (or_default (NODE_ENV env) ''development''))
     \<and> (\<forall>k. k \<notin> {''timestamp'', ''system_version'', ''environment''}
            \<longrightarrow> m k = caller_metadata r k)
     \<and> m ''source'' = caller_metadata r ''source''
     \<and> m ''trigger'' = caller_metadata r ''trigger'')
   \<and> createAuditRecords dbs env clock records
       = (case dbs (enhancedRecords env clock records) of
            Inl e \<Rightarrow> Inl (''Batch audit logging failed: '' @ e)
          | Inr rows \<Rightarrow> Inr (case rows of None \<Rightarrow> [] | Some rs \<Rightarrow> rs))
   \<and> length (enhancedRecords env clock records) = length records
   \<and> (\<forall>k < length records.
         enhancedRecords env clock records ! k = audit_insert env (clock k) (records ! k))"
  by (simp add: createAuditRecord_def createAuditRecords_def enhancedRecords_def
        audit_insert_def enhancedMetadata_keys caller_metadata_def nth_enumerate_eq Let_def)

theorem createAuditRecord_enriches_metadata_witness:
  "insert_metadata (audit_insert example_env example_time example_audit_record) ''task_id''
     = Some (JString ''task-1'')
   \<and> insert_metadata (audit_insert example_env example_time example_audit_record) ''environment''
     = Some (JString ''development'')
   \<and> insert_metadata (audit_insert example_env example_time example_audit_record) ''system_version''
     = Some (JString ''0.1.0'')
   \<and> enhancedRecords example_env example_time_clock [example_audit_record] ! 0
     = audit_insert example_env example_time example_audit_record"
  using createAuditRecord_enriches_metadata
    [of example_env example_time example_audit_record _ _ example_time_clock
        "[example_audit_record]"]
  by (simp add: Let_def caller_metadata_def example_audit_record_def example_env_def
        or_default_def example_time_clock_def)

section \<open>Properties of the audit query route\<close>

lemma build_filters_limit:
  "\<not> (num_gt n 0 \<and> num_le n 1000) \<Longrightarrow> param_limit params = Some n \<Longrightarrow>
    build_filters params = build_filters (params\<lparr>param_limit := None\<rparr>)"
  by (cases n) (auto simp: build_filters_def limit_filter_def)

lemma build_filters_offset:
  "\<not> num_ge n 0 \<Longrightarrow> param_offset params = Some n \<Longrightarrow>
    build_filters params = build_filters (params\<lparr>param_offset := None\<rparr>)"
  by (cases n) (auto simp: build_filters_def offset_filter_def)

lemma GET_filters:
  "build_filters p = build_filters q \<Longrightarrow> param_summary p = param_summary q \<Longrightarrow>
     GET db ag p = GET db ag q"
  by (simp add: GET_def)

lemma GET_error:
  "GET db ag params = Error_json st e d \<Longrightarrow> \<exists>q m. db q = Inl m"
  by (auto simp: GET_def Let_def generateAuditSummary_def queryAuditTrail_def
        split: if_splits sum.splits)

text \<open>
  Claim C9, as stated, fails: a request with the limit 5000 and the offset -5 is not
  refused; it is answered with the records, as the request without the two parameters is.
\<close>

theorem GET_limit_out_of_range_not_refused:
  "GET no_rows count_rows
      (example_params\<lparr>param_limit := Some (Num 5000), param_offset := Some (Num (- 5))\<rparr>)
     = Records_json [] 0 (build_filters example_params)"
  by (simp add: GET_def build_filters_def limit_filter_def offset_filter_def example_params_def
        queryAuditTrail_def no_rows_def Let_def)

text \<open>
  Claim C9, amended. A limit outside 1 to 1000 (or one that is not a number) is ignored:
  the request is answered as the same request without a limit. An offset below 0 (or one
  that is not a number) is ignored likewise. A limit from 1 to 1000 and an offset from 0
  on become filters of the query. The route answers with an error only when the store
  reports one.
\<close>

theorem GET_ignores_limit_out_of_range:
  "(\<forall>n. param_limit params = Some n \<and> \<not> (num_gt n 0 \<and> num_le n 1000)
       \<longrightarrow> GET db aggregate params = GET db aggregate (params\<lparr>param_limit := None\<rparr>))
   \<and> (\<forall>n. param_offset params = Some n \<and> \<not> num_ge n 0
       \<longrightarrow> GET db aggregate params = GET db aggregate (params\<lparr>param_offset := None\<rparr>))
   \<and> (\<forall>n. param_limit params = Some (Num n) \<and> 0 < n \<and> n \<le> 1000
       \<longrightarrow> limit (build_filters params) = Some n)
   \<and> (\<forall>n. param_offset params = Some (Num n) \<and> 0 \<le> n
       \<longrightarrow> offset (build_filters params) = Some n)
   \<and> (\<forall>st e d. GET db aggregate params = Error_json st e d \<longrightarrow> (\<exists>q m. db q = Inl m))"
proof -
  have 1: "\<forall>n. param_limit params = Some n \<and> \<not> (num_gt n 0 \<and> num_le n 1000)
       \<longrightarrow> GET db aggregate params = GET db aggregate (params\<lparr>param_limit := None\<rparr>)"
    by (auto intro!: GET_filters build_filters_limit)
  have 2: "\<forall>n. param_offset params = Some n \<and> \<not> num_ge n 0
       \<longrightarrow> GET db aggregate params = GET db aggregate (params\<lparr>param_offset := None\<rparr>)"
    by (auto intro!: GET_filters build_filters_offset)
  have 3: "\<forall>n. param_limit params = Some (Num n) \<and> 0 < n \<and> n \<le> 1000
       \<longrightarrow> limit (build_filters params) = Some n"
    by (simp add: build_filters_def limit_filter_def)
  have 4: "\<forall>n. param_offset params = Some (Num n) \<and> 0 \<le> n
       \<longrightarrow> offset (build_filters params) = Some n"
    by (simp add: build_filters_def offset_filter_def)
  have 5: "\<forall>st e d. GET db aggregate params = Error_json st e d \<longrightarrow> (\<exists>q m. db q = Inl m)"
    using GET_error by blast
  from 1 2 3 4 5 show ?thesis by blast
qed

theorem GET_ignores_limit_out_of_range_witness:
  "GET no_rows count_rows (example_params\<lparr>param_limit := Some (Num 5000)\<rparr>)
     = GET no_rows count_rows example_params
   \<and> GET no_rows count_rows (example_params\<lparr>param_offset := Some NaN\<rparr>)
     = GET no_rows count_rows example_params
   \<and> limit (build_filters (example_params\<lparr>param_limit := Some (Num 50)\<rparr>)) = Some 50"
  using GET_ignores_limit_out_of_range
      [of "example_params\<lparr>param_limit := Some (Num 5000)\<rparr>" no_rows count_rows]
    GET_ignores_limit_out_of_range
      [of "example_params\<lparr>param_offset := Some NaN\<rparr>" no_rows count_rows]
    GET_ignores_limit_out_of_range
      [of "example_params\<lparr>param_limit := Some (Num 50)\<rparr>" no_rows count_rows]
  by (simp add: example_params_def)

section \<open>Properties of the integration lifecycle\<close>

lemma Math_round_percentage:
  assumes "t > 0"
  shows "Math_round ((of_nat s / of_nat t) * 100) = (200 * int s + int t) div (2 * int t)"
proof -
  have "(of_nat s / of_nat t) * 100 + 1 / 2
          = (of_int (200 * int s + int t) :: rat) / of_int (2 * int t)"
    using assms by (simp add: field_simps)
  then show ?thesis unfolding Math_round_def by (simp only: floor_divide_of_int_eq)
qed

lemma int_div_bounds:
  fixes a b :: int
  assumes "0 < b"
  shows "a div b * b \<le> a" and "a < (a div b + 1) * b"
proof -
  have eq: "a div b * b + a mod b = a" by simp
  have lo: "0 \<le> a mod b" and hi: "a mod b < b" using assms by simp_all
  from eq lo show "a div b * b \<le> a" by linarith
  have "(a div b + 1) * b = a div b * b + b" by (simp add: algebra_simps)
  with eq hi show "a < (a div b + 1) * b" by linarith
qed

lemma completionPercentage_bounds:
  assumes "tests \<noteq> []"
  shows "2 * completionPercentage tests * int (length tests)
            \<le> 200 * int (length (filter success tests)) + int (length tests)"
    and "200 * int (length (filter success tests)) + int (length tests)
            < 2 * (completionPercentage tests + 1) * int (length tests)"
proof -
  let ?s = "int (length (filter success tests))" and ?t = "int (length tests)"
  from assms have pos: "0 < 2 * ?t" by simp
  have cp: "completionPercentage tests = (200 * ?s + ?t) div (2 * ?t)"
    using assms Math_round_percentage[of "length tests" "length (filter success tests)"]
    by (simp add: completionPercentage_def Let_def)
  have "2 * completionPercentage tests * ?t = (200 * ?s + ?t) div (2 * ?t) * (2 * ?t)"
    by (simp add: cp)
  also have "\<dots> \<le> 200 * ?s + ?t" by (rule int_div_bounds(1)[OF pos])
  finally show "2 * completionPercentage tests * ?t \<le> 200 * ?s + ?t" .
  have "200 * ?s + ?t < ((200 * ?s + ?t) div (2 * ?t) + 1) * (2 * ?t)"
    by (rule int_div_bounds(2)[OF pos])
  also have "\<dots> = 2 * (completionPercentage tests + 1) * ?t"
    by (simp add: cp)
  finally show "200 * ?s + ?t < 2 * (completionPercentage tests + 1) * ?t" .
qed

lemma overallStatus_iff:
  "(overallStatus p = Passed \<longleftrightarrow> p = 100)"
  "(overallStatus p = Warning \<longleftrightarrow> 70 \<le> p \<and> p \<noteq> 100)"
  "(overallStatus p = Failed \<longleftrightarrow> p < 70)"
  by (auto simp: overallStatus_def)

lemma completionPercentage_le_100: "completionPercentage tests \<le> 100"
proof (cases "tests = []")
  case True
  then show ?thesis by (simp add: completionPercentage_def)
next
  case False
  let ?s = "int (length (filter success tests))" and ?t = "int (length tests)"
  from False have t: "0 < ?t" by simp
  have st: "?s \<le> ?t" by simp
  from completionPercentage_bounds(1)[OF False]
  have "2 * completionPercentage tests * ?t \<le> 200 * ?s + ?t" .
  also have "\<dots> \<le> 201 * ?t" using st by linarith
  finally have "(2 * completionPercentage tests) * ?t \<le> 201 * ?t" by (simp add: mult.assoc)
  with t have "2 * completionPercentage tests \<le> 201" by simp
  then show ?thesis by linarith
qed

lemma runIntegrationTests_sel:
  "validation_test_results (runIntegrationTests now i) = testResults now i"
  "completion_percentage (runIntegrationTests now i) = completionPercentage (testResults now i)"
  "overall_status (runIntegrationTests now i)
     = overallStatus (completionPercentage (testResults now i))"
  by (simp_all add: runIntegrationTests_def Let_def)

lemma example_integration_sel:
  "integration_type (example_integration ty c) = ty"
  "configuration_or_empty (example_integration ty (Some m)) = m"
  "configuration_or_empty (example_integration ty None) = Map.empty"
  by (simp_all add: example_integration_def configuration_or_empty_def)

text \<open>
  Claim C3. In every result of \<open>runIntegrationTests\<close>, the completion percentage is
  100 times passed over total rounded to the nearest integer, a half rounded up (0 for an
  empty list of tests): it is the integer \<open>p\<close> with
  \<open>p - 1/2 \<le> 100 * passed / total < p + 1/2\<close>. The overall status is \<open>passed\<close>
  exactly when the percentage is 100, \<open>warning\<close> exactly when it is at least 70 and
  below 100, and \<open>failed\<close> exactly when it is below 70.
\<close>

theorem runIntegrationTests_percentage_and_status:
  "(let r = runIntegrationTests now integration;
        passed = int (length (filter success (validation_test_results r)));
        total = int (length (validation_test_results r));
        percentage = completion_percentage r
    in (total = 0 \<longrightarrow> percentage = 0)
     \<and> (total > 0 \<longrightarrow> 2 * percentage * total \<le> 200 * passed + total
                       \<and> 200 * passed + total < 2 * (percentage + 1) * total)
     \<and> (overall_status r = Passed \<longleftrightarrow> percentage = 100)
     \<and> (overall_status r = Warning \<longleftrightarrow> 70 \<le> percentage \<and> percentage < 100)
     \<and> (overall_status r = Failed \<longleftrightarrow> percentage < 70))"
proof -
  let ?tests = "testResults now integration"
  have a: "length ?tests = 0 \<longrightarrow> completionPercentage ?tests = 0"
    by (simp add: completionPercentage_def)
  have b: "?tests \<noteq> [] \<longrightarrow> 2 * completionPercentage ?tests * int (length ?tests)
            \<le> 200 * int (length (filter success ?tests)) + int (length ?tests)
      \<and> 200 * int (length (filter success ?tests)) + int (length ?tests)
            < 2 * (completionPercentage ?tests + 1) * int (length ?tests)"
    using completionPercentage_bounds[of ?tests] by blast
  have c: "completionPercentage ?tests \<le> 100" by (rule completionPercentage_le_100)
  show ?thesis
    unfolding Let_def runIntegrationTests_sel
    using a b c by (auto simp: overallStatus_iff)
qed

theorem runIntegrationTests_percentage_and_status_witness:
  "completion_percentage (runIntegrationTests example_time (example_integration CRM None)) = 67
   \<and> overall_status (runIntegrationTests example_time (example_integration CRM None)) = Failed"
proof -
  let ?r = "runIntegrationTests example_time (example_integration CRM None)"
  have l: "int (length (validation_test_results ?r)) = 3"
    and p: "int (length (filter success (validation_test_results ?r))) = 2"
    by (simp_all add: runIntegrationTests_sel testResults_def testCRMIntegration_def
          example_integration_sel)
  from runIntegrationTests_percentage_and_status[of example_time "example_integration CRM None"]
  have a: "2 * completion_percentage ?r * 3 \<le> 200 * 2 + 3"
    and b: "200 * 2 + 3 < 2 * (completion_percentage ?r + 1) * 3"
    and f: "overall_status ?r = Failed \<longleftrightarrow> completion_percentage ?r < 70"
    unfolding Let_def l p by simp_all
  from a b have "6 * completion_percentage ?r \<le> 403"
    and "403 < 6 * completion_percentage ?r + 6"
    by simp_all
  then have "completion_percentage ?r = 67" by linarith
  with f show ?thesis by simp
qed

lemma testResults_length:
  "integration_type i \<noteq> Other \<Longrightarrow> length (testResults now i) = 3"
  by (cases "integration_type i")
     (simp_all add: testResults_def testSISIntegration_def testCRMIntegration_def
        testSFTPIntegration_def testAPIIntegration_def)

lemma testResults_success:
  "integration_type i \<noteq> Other \<Longrightarrow>
    map success (testResults now i)
      = [True, credentials_present (integration_type i) (configuration_or_empty i), True]"
  by (cases "integration_type i")
     (simp_all add: testResults_def testSISIntegration_def testCRMIntegration_def
        testSFTPIntegration_def testAPIIntegration_def key_present_def)

lemma non_authentication_tests_succeed:
  "integration_type i \<noteq> Other \<Longrightarrow>
     \<forall>t \<in> set (testResults now i). test_type t \<noteq> Authentication \<longrightarrow> success t"
  by (cases "integration_type i")
     (simp_all add: testResults_def testSISIntegration_def testCRMIntegration_def
        testSFTPIntegration_def testAPIIntegration_def)

lemma filter_success_length: "length (filter success ts) = length (filter id (map success ts))"
  by (induction ts) simp_all

lemma percentage_of_three:
  assumes "integration_type i \<noteq> Other"
  shows "completionPercentage (testResults now i)
    = (if credentials_present (integration_type i) (configuration_or_empty i) then 100 else 67)"
proof -
  have l: "length (testResults now i) = 3" using assms by (rule testResults_length)
  have s: "length (filter success (testResults now i))
     = (if credentials_present (integration_type i) (configuration_or_empty i) then 3 else 2)"
    by (simp add: filter_success_length testResults_success[OF assms])
  show ?thesis
    using Math_round_percentage[of 3 3] Math_round_percentage[of 3 2]
    by (simp add: completionPercentage_def Let_def l s)
qed

text \<open>
  Claim C10. For an integration of type SIS, CRM, SFTP or API, \<open>runIntegrationTests\<close>
  runs exactly three tests, of which every test other than the authentication test
  succeeds; the completion percentage is 100 when the credentials the type requires are
  present and 67 otherwise; the overall status is never \<open>warning\<close>: it is \<open>passed\<close>
  exactly when the credentials are present and \<open>failed\<close> exactly when they are not.
\<close>

theorem runIntegrationTests_credentials_decide:
  assumes "integration_type i \<noteq> Other"
  shows "(let r = runIntegrationTests now i;
             credentials = credentials_present (integration_type i) (configuration_or_empty i)
         in length (validation_test_results r) = 3
          \<and> (\<forall>t \<in> set (validation_test_results r).
                test_type t \<noteq> Authentication \<longrightarrow> success t)
          \<and> completion_percentage r = (if credentials then 100 else 67)
          \<and> completion_percentage r \<in> {67, 100}
          \<and> overall_status r \<noteq> Warning
          \<and> (overall_status r = Passed \<longleftrightarrow> credentials)
          \<and> (overall_status r = Failed \<longleftrightarrow> \<not> credentials))"
  unfolding Let_def runIntegrationTests_sel
  using testResults_length[OF assms, of now] non_authentication_tests_succeed[OF assms, of now]
  by (simp add: percentage_of_three[OF assms] overallStatus_def)

theorem runIntegrationTests_credentials_decide_witness:
  "overall_status (runIntegrationTests example_time
      (example_integration SIS (Some [''endpoint'' \<mapsto> JString ''https://acme.powerschool.com/api''])))
     = Failed
   \<and> completion_percentage (runIntegrationTests example_time
      (example_integration SIS (Some [''endpoint'' \<mapsto> JString ''https://acme.powerschool.com/api''])))
     = 67
   \<and> overall_status (runIntegrationTests example_time
      (example_integration API (Some [''bearer_token'' \<mapsto> JString ''secret''])))
     = Passed"
  using runIntegrationTests_credentials_decide
      [of "example_integration SIS (Some [''endpoint'' \<mapsto> JString ''https://acme.powerschool.com/api''])"
          example_time]
    runIntegrationTests_credentials_decide
      [of "example_integration API (Some [''bearer_token'' \<mapsto> JString ''secret''])" example_time]
  by (simp add: example_integration_sel key_present_def Let_def)

end
